theory Spec2Isabelle
  imports Complex_Main "HOL-Library.Multiset"
begin

section \<open>Strings\<close>

text \<open>
  Source strings are modelled as \<open>string\<close>: a list of 8-bit code units, read as the
  Latin-1 range of the source's UTF-16 code units. The helpers below are the string
  methods of the platform that the modelled functions call, restricted to that range.
\<close>

definition is_ws :: "char \<Rightarrow> bool" where
  \<comment> \<open>white space and line terminators, as \<open>String.prototype.trim\<close> and the regular
      expression class \<open>\\s\<close> see them\<close>
  "is_ws c = (c = CHR 0x09 \<or> c = CHR 0x0A \<or> c = CHR 0x0B \<or> c = CHR 0x0C \<or> c = CHR 0x0D
              \<or> c = CHR 0x20 \<or> c = CHR 0xA0)"

definition trim :: "string \<Rightarrow> string" where
  "trim s = rev (dropWhile is_ws (rev (dropWhile is_ws s)))"

definition toLowerCase_char :: "char \<Rightarrow> char" where
  "toLowerCase_char c =
     (let n = (of_char c :: nat)
      in if (65 \<le> n \<and> n \<le> 90) \<or> (192 \<le> n \<and> n \<le> 222 \<and> n \<noteq> 215)
         then char_of (n + 32) else c)"

definition toLowerCase :: "string \<Rightarrow> string" where
  "toLowerCase s = map toLowerCase_char s"

definition truthy :: "string option \<Rightarrow> bool" where
  \<comment> \<open>a string-valued property that may be absent: \<open>undefined\<close> and \<open>''\<close> are falsy\<close>
  "truthy v = (case v of None \<Rightarrow> False | Some s \<Rightarrow> s \<noteq> [])"

definition or_js :: "string option \<Rightarrow> string option \<Rightarrow> string option" where
  \<comment> \<open>\<open>a || b\<close>\<close>
  "or_js a b = (if truthy a then a else b)"

definition or_str :: "string option \<Rightarrow> string \<Rightarrow> string" where
  \<comment> \<open>\<open>a || 'literal'\<close>\<close>
  "or_str a d = (case a of None \<Rightarrow> d | Some s \<Rightarrow> if s \<noteq> [] then s else d)"

definition nth_opt :: "'a list \<Rightarrow> nat \<Rightarrow> 'a option" where
  \<comment> \<open>\<open>xs[i]\<close>, \<open>undefined\<close> out of range\<close>
  "nth_opt xs i = (if i < length xs then Some (xs ! i) else None)"

section \<open>Curation records\<close>

text \<open>
  A record of the review store is a dynamically shaped object: a chat-message pair, or
  question/answer fields, or instruction/context/cot_answer fields. Every property the
  code reads is a field here; \<open>None\<close> is an absent property. An entry of \<open>messages\<close>
  may itself be absent (\<open>undefined\<close> or \<open>null\<close>).
\<close>

record message =
  role :: string
  content :: "string option"

record item =
  messages :: "message option list option"
  question :: "string option"
  answer :: "string option"
  instruction :: "string option"
  context_field :: "string option"
  cot_answer :: "string option"
  item_id :: "string option"
  item_status :: "string option"

definition empty_item :: item where
  "empty_item = \<lparr>messages = None, question = None, answer = None, instruction = None,
     context_field = None, cot_answer = None, item_id = None, item_status = None\<rparr>"

definition message_content :: "item \<Rightarrow> nat \<Rightarrow> string option" where
  \<comment> \<open>\<open>item.messages?.[k]?.content\<close>\<close>
  "message_content it k =
     (case messages it of None \<Rightarrow> None
      | Some ms \<Rightarrow> (case nth_opt ms k of Some (Some m) \<Rightarrow> content m | _ \<Rightarrow> None))"

definition getQuestion :: "item \<Rightarrow> string" where
  "getQuestion it = or_str (or_js (or_js (message_content it 0) (question it)) (instruction it)) []"

definition getAnswer :: "item \<Rightarrow> string" where
  "getAnswer it = or_str (or_js (or_js (message_content it 1) (answer it)) (cot_answer it)) []"

section \<open>Tabular importer\<close>

record csv_state =
  rows :: "string list list"
  currentRow :: "string list"
  currentField :: string
  inQuotes :: bool

definition some_nonempty :: "string list \<Rightarrow> bool" where
  \<comment> \<open>\<open>currentRow.some(f => f)\<close>\<close>
  "some_nonempty r = list_ex (\<lambda>f. f \<noteq> []) r"

definition end_field :: "csv_state \<Rightarrow> csv_state" where
  "end_field st = st\<lparr>currentRow := currentRow st @ [trim (currentField st)], currentField := []\<rparr>"

definition end_row :: "csv_state \<Rightarrow> csv_state" where
  "end_row st =
     (let r = currentRow st @ [trim (currentField st)]
      in st\<lparr>rows := (if some_nonempty r then rows st @ [r] else rows st),
             currentRow := [], currentField := []\<rparr>)"

definition nextChar :: "string \<Rightarrow> char option" where
  \<comment> \<open>\<open>csvText[i + 1]\<close>, \<open>undefined\<close> past the end\<close>
  "nextChar cs = (case cs of [] \<Rightarrow> None | n # _ \<Rightarrow> Some n)"

function parseCSV_loop :: "string \<Rightarrow> csv_state \<Rightarrow> csv_state" where
  "parseCSV_loop [] st = st"
| "parseCSV_loop (c # cs) st =
     (if c = CHR 0x22 then
        (if inQuotes st \<and> nextChar cs = Some (CHR 0x22)
         then parseCSV_loop (tl cs) (st\<lparr>currentField := currentField st @ [CHR 0x22]\<rparr>)
         else parseCSV_loop cs (st\<lparr>inQuotes := \<not> inQuotes st\<rparr>))
      else if c = CHR '','' \<and> \<not> inQuotes st then parseCSV_loop cs (end_field st)
      else if (c = CHR 0x0A \<or> (c = CHR 0x0D \<and> nextChar cs = Some (CHR 0x0A))) \<and> \<not> inQuotes st
        then parseCSV_loop (if c = CHR 0x0D then tl cs else cs) (end_row st)
      else if c = CHR 0x0D \<and> \<not> inQuotes st then parseCSV_loop cs (end_row st)
      else parseCSV_loop cs (st\<lparr>currentField := currentField st @ [c]\<rparr>))"
  by pat_completeness auto
termination
  by (relation "measure (\<lambda>(cs, st). length cs)") auto

definition parseCSV :: "string \<Rightarrow> string list list" where
  "parseCSV csvText =
     (let st = parseCSV_loop csvText \<lparr>rows = [], currentRow = [], currentField = [], inQuotes = False\<rparr>
      in if currentField st \<noteq> [] \<or> length (currentRow st) > 0
         then (let r = currentRow st @ [trim (currentField st)]
               in if some_nonempty r then rows st @ [r] else rows st)
         else rows st)"

definition build_row :: "string list \<Rightarrow> string list \<Rightarrow> (string \<rightharpoonup> string)" where
  \<comment> \<open>\<open>headers.forEach((h, idx) => { row[h] = values[idx] || '' })\<close>\<close>
  "build_row headers vals =
     fold (\<lambda>(idx, h) row. row(h \<mapsto> or_str (nth_opt vals idx) [])) (enumerate 0 headers) Map.empty"

definition sharegpt_record :: "(string \<rightharpoonup> string) \<Rightarrow> string list \<Rightarrow> item" where
  "sharegpt_record row vals =
     (let q = or_js (or_js (or_js (or_js (row ''question'') (row ''prompt'')) (row ''input'')) (row ''q''))
                (nth_opt vals 0);
          a = or_js (or_js (or_js (or_js (row ''answer'') (row ''response'')) (row ''output'')) (row ''a''))
                (nth_opt vals 1)
      in empty_item\<lparr>messages := Some [Some \<lparr>role = ''user'', content = q\<rparr>,
                                         Some \<lparr>role = ''assistant'', content = a\<rparr>]\<rparr>)"

definition raft_record :: "(string \<rightharpoonup> string) \<Rightarrow> string list \<Rightarrow> item" where
  "raft_record row vals =
     (let hasContextColumn = truthy (or_js (or_js (row ''context'') (row ''document'')) (row ''source''));
          hasThirdColumn = (length vals \<ge> 3 \<and> truthy (nth_opt vals 2))
      in empty_item\<lparr>
           instruction := or_js (or_js (or_js (row ''instruction'') (row ''question'')) (row ''prompt''))
                            (nth_opt vals 0),
           context_field := (if hasContextColumn
                             then or_js (or_js (row ''context'') (row ''document'')) (row ''source'')
                             else if hasThirdColumn then nth_opt vals 1 else Some []),
           cot_answer := or_js (or_js (or_js (row ''cot_answer'') (row ''answer'')) (row ''response''))
                           (if hasThirdColumn then nth_opt vals 2 else nth_opt vals 1)\<rparr>)"

fun csvToJson_rows :: "string \<Rightarrow> string list \<Rightarrow> string list list \<Rightarrow> item list" where
  "csvToJson_rows fmt headers [] = []"
| "csvToJson_rows fmt headers (vals # rest) =
     (if length vals < 2 then csvToJson_rows fmt headers rest
      else (let row = build_row headers vals
            in if fmt = ''sharegpt'' then sharegpt_record row vals # csvToJson_rows fmt headers rest
               else if fmt = ''raft'' then raft_record row vals # csvToJson_rows fmt headers rest
               else csvToJson_rows fmt headers rest))"

definition csvToJson :: "string \<Rightarrow> string \<Rightarrow> item list" where
  "csvToJson csvText fmt =
     (let rs = parseCSV csvText
      in if length rs < 2 then []
         else (let headers = map (\<lambda>h. filter (\<lambda>c. c \<noteq> CHR 0x22) (toLowerCase h)) (hd rs)
               in csvToJson_rows fmt headers (tl rs)))"

section \<open>Judge response parser\<close>

fun split_on :: "char \<Rightarrow> string \<Rightarrow> string list" where
  \<comment> \<open>\<open>s.split(d)\<close> for a one-character separator: never empty\<close>
  "split_on d [] = [ [] ]"
| "split_on d (c # cs) =
     (if c = d then [] # split_on d cs
      else (case split_on d cs of l # ls \<Rightarrow> (c # l) # ls | [] \<Rightarrow> [ [c] ]))"

fun join_with :: "string \<Rightarrow> string list \<Rightarrow> string" where
  \<comment> \<open>\<open>xs.join(sep)\<close>\<close>
  "join_with sep [] = []"
| "join_with sep [x] = x"
| "join_with sep (x # y # ys) = x @ sep @ join_with sep (y # ys)"

definition is_1_5 :: "char \<Rightarrow> bool" where
  \<comment> \<open>the character class \<open>[1-5]\<close>\<close>
  "is_1_5 c = (49 \<le> (of_char c :: nat) \<and> (of_char c :: nat) \<le> 53)"

definition digit_value :: "char \<Rightarrow> nat" where
  \<comment> \<open>\<open>parseInt\<close> of a one-digit match\<close>
  "digit_value c = of_char c - 48"

definition is_rating_sep :: "char \<Rightarrow> bool" where
  \<comment> \<open>the character class \<open>[:\\s]\<close>\<close>
  "is_rating_sep c = (c = CHR '':'' \<or> is_ws c)"

definition rating_at :: "string \<Rightarrow> (string \<times> char) option" where
  \<comment> \<open>\<open>/[Rr]ating[:\\s]+([1-5])/i\<close> anchored at the start of \<open>s\<close>: the matched text and
      the captured digit. The separator run is greedy and disjoint from \<open>[1-5]\<close>, so the
      only candidate is the whole run.\<close>
  "rating_at s =
     (if toLowerCase (take 6 s) = ''rating'' then
        (let seps = takeWhile is_rating_sep (drop 6 s)
         in case dropWhile is_rating_sep (drop 6 s) of
              d # _ \<Rightarrow> if seps \<noteq> [] \<and> is_1_5 d then Some (take 6 s @ seps @ [d], d) else None
            | [] \<Rightarrow> None)
      else None)"

fun rating_match :: "string \<Rightarrow> (string \<times> char) option" where
  \<comment> \<open>\<open>output.match(...)\<close>: the leftmost match\<close>
  "rating_match [] = None"
| "rating_match (c # cs) =
     (case rating_at (c # cs) of Some m \<Rightarrow> Some m | None \<Rightarrow> rating_match cs)"

fun indexOf :: "string \<Rightarrow> string \<Rightarrow> nat option" where
  \<comment> \<open>\<open>s.indexOf(pat)\<close>; \<open>None\<close> is \<open>-1\<close>\<close>
  "indexOf [] pat = (if pat = [] then Some 0 else None)"
| "indexOf (c # cs) pat =
     (if take (length pat) (c # cs) = pat then Some 0 else map_option Suc (indexOf cs pat))"

record judge_result =
  score :: nat
  explanation :: string

definition parseJudgeOutput :: "string \<Rightarrow> judge_result" where
  "parseJudgeOutput output =
     (let lines = split_on (CHR 0x0A) (trim output);
          firstLine = trim (hd lines)
      in if length firstLine = 1 \<and> is_1_5 (hd firstLine)
         then \<lparr>score = digit_value (hd firstLine),
               explanation = trim (join_with [CHR 0x0A] (tl lines))\<rparr>
         else (case rating_match output of
                 Some (m, d) \<Rightarrow>
                   \<lparr>score = digit_value d,
                    explanation =
                      trim (case indexOf output m of
                              Some k \<Rightarrow> drop (k + length m) output
                            | None \<Rightarrow> drop (length m - 1) output)\<rparr>
               | None \<Rightarrow>
                   (case find is_1_5 (take 50 output) of
                      Some d \<Rightarrow> \<lparr>score = digit_value d, explanation = output\<rparr>
                    | None \<Rightarrow> \<lparr>score = 3, explanation = output\<rparr>)))"

section \<open>Evaluation and flagging\<close>

datatype eval_status = Pending | Passed | Flagged | Error | Corrected | Accepted | Rejected

text \<open>
  A model response after normalisation (\<open>handleLoadResponses\<close>), and the same object
  once evaluated: the evaluation fields are absent before.
\<close>

record eval_item =
  resp_id :: string
  resp_question :: string
  expected_answer :: string
  model_response :: string
  resp_status :: eval_status
  evalScore :: "real option"
  rawScore :: "nat option"
  evalExplanation :: "string option"
  evaluatedAt :: "string option"
  correctedAnswer :: "string option"

record eval_config =
  scoreThreshold :: real
  judgeEndpoint :: string
  judgeApiKey :: string

fun expand_replacement :: "string \<Rightarrow> string \<Rightarrow> string \<Rightarrow> string \<Rightarrow> string" where
  \<comment> \<open>the replacement patterns of \<open>String.prototype.replace\<close> with a string pattern:
      \<open>$$\<close>, \<open>$&\<close>, \<open>$`\<close> and \<open>$'\<close>; there are no captures\<close>
  "expand_replacement (c # d # cs) m pre post =
     (if c = CHR ''$'' \<and> d = CHR ''$'' then CHR ''$'' # expand_replacement cs m pre post
      else if c = CHR ''$'' \<and> d = CHR ''&'' then m @ expand_replacement cs m pre post
      else if c = CHR ''$'' \<and> d = CHR 0x60 then pre @ expand_replacement cs m pre post
      else if c = CHR ''$'' \<and> d = CHR 0x27 then post @ expand_replacement cs m pre post
      else c # expand_replacement (d # cs) m pre post)"
| "expand_replacement cs m pre post = cs"

definition replace_first :: "string \<Rightarrow> string \<Rightarrow> string \<Rightarrow> string" where
  \<comment> \<open>\<open>s.replace(pat, rep)\<close> with a string pattern: the first occurrence only\<close>
  "replace_first s pat rep =
     (case indexOf s pat of
        None \<Rightarrow> s
      | Some k \<Rightarrow> take k s
                  @ expand_replacement rep pat (take k s) (drop (k + length pat) s)
                  @ drop (k + length pat) s)"

definition JUDGE_PROMPT :: string where
  "JUDGE_PROMPT =
     ''You are evaluating the quality of an AI assistant'' @ [CHR 0x27] @ ''s response to a question.''
     @ [CHR 0x0A, CHR 0x0A]
     @ ''Question: {question}'' @ [CHR 0x0A]
     @ ''Expected Answer: {expected_answer}'' @ [CHR 0x0A]
     @ ''Model Response: {model_response}'' @ [CHR 0x0A, CHR 0x0A]
     @ ''Rate the response on a scale of 1-5:'' @ [CHR 0x0A]
     @ ''1 = Completely incorrect or contradicts the expected answer'' @ [CHR 0x0A]
     @ ''2 = Mostly incorrect with some accurate elements'' @ [CHR 0x0A]
     @ ''3 = Partially correct but missing key points'' @ [CHR 0x0A]
     @ ''4 = Mostly correct with minor omissions'' @ [CHR 0x0A]
     @ ''5 = Fully correct and well-explained'' @ [CHR 0x0A, CHR 0x0A]
     @ ''Provide your rating as a single number, then a brief explanation.'' @ [CHR 0x0A]
     @ ''Rating:''"

definition createJudgePrompt :: "string \<Rightarrow> string \<Rightarrow> string \<Rightarrow> string" where
  "createJudgePrompt q expected response =
     replace_first
       (replace_first (replace_first JUDGE_PROMPT ''{question}'' q) ''{expected_answer}'' expected)
       ''{model_response}'' response"

text \<open>
  The judge call is external. \<open>judge i prompt\<close> is what lines 2199 to 2215 give for the
  \<open>i\<close>-th record: \<open>Inr judgeOutput\<close>, the text handed to the parser, or \<open>Inl msg\<close>, the
  message of the exception raised inside the \<open>try\<close> block (network failure, a body that
  is not JSON, an output that is not text). \<open>now i\<close> is the clock reading at record \<open>i\<close>.
\<close>

type_synonym judge_call = "nat \<Rightarrow> string \<Rightarrow> string + string"

definition evaluate_item :: "eval_config \<Rightarrow> judge_call \<Rightarrow> (nat \<Rightarrow> string) \<Rightarrow> nat \<Rightarrow> eval_item \<Rightarrow> eval_item" where
  \<comment> \<open>the \<open>try\<close>/\<open>catch\<close> of the loop body: the object pushed to \<open>results\<close>\<close>
  "evaluate_item cfg judge now i item =
     (case judge i (createJudgePrompt (resp_question item) (expected_answer item) (model_response item)) of
        Inr judgeOutput \<Rightarrow>
          (let parsed = parseJudgeOutput judgeOutput;
               normalizedScore = (real (score parsed) - 1) / 4
           in item\<lparr>evalScore := Some normalizedScore,
                   rawScore := Some (score parsed),
                   evalExplanation := Some (explanation parsed),
                   resp_status := (if normalizedScore < scoreThreshold cfg then Flagged else Passed),
                   evaluatedAt := Some (now i)\<rparr>)
      | Inl msg \<Rightarrow>
          item\<lparr>evalScore := Some 0,
                rawScore := Some 1,
                evalExplanation := Some (''Error: '' @ msg),
                resp_status := Error,
                evaluatedAt := Some (now i)\<rparr>)"

fun runEvaluation_loop ::
  "eval_config \<Rightarrow> judge_call \<Rightarrow> (nat \<Rightarrow> string) \<Rightarrow> nat \<Rightarrow> eval_item list \<Rightarrow> eval_item list \<Rightarrow> eval_item list" where
  \<comment> \<open>the \<open>for\<close> loop from index \<open>i\<close> on, \<open>results\<close> being what was pushed so far\<close>
  "runEvaluation_loop cfg judge now i [] results = results"
| "runEvaluation_loop cfg judge now i (item # rest) results =
     runEvaluation_loop cfg judge now (Suc i) rest (results @ [evaluate_item cfg judge now i item])"

definition runEvaluation ::
  "eval_config \<Rightarrow> judge_call \<Rightarrow> (nat \<Rightarrow> string) \<Rightarrow> eval_item list \<Rightarrow> string + eval_item list" where
  \<comment> \<open>\<open>Inl\<close> is the alert shown when the batch does not start; \<open>Inr\<close> is what
      \<open>setEvalResults\<close> receives\<close>
  "runEvaluation cfg judge now modelResponses =
     (if modelResponses = [] then Inl ''Load model responses first''
      else if judgeEndpoint cfg = [] \<or> judgeApiKey cfg = []
      then Inl ''Configure judge endpoint and API key first''
      else Inr (runEvaluation_loop cfg judge now 0 modelResponses []))"

section \<open>Correction feedback loop\<close>

record metrics_state =
  evalResults :: "eval_item list"
  flaggedIndex :: nat

definition flaggedItems :: "eval_item list \<Rightarrow> eval_item list" where
  "flaggedItems rs = filter (\<lambda>r. resp_status r = Flagged \<or> resp_status r = Corrected) rs"

definition currentFlagged :: "metrics_state \<Rightarrow> eval_item option" where
  "currentFlagged st = nth_opt (flaggedItems (evalResults st)) (flaggedIndex st)"

definition handleSaveCorrection :: "string \<Rightarrow> metrics_state \<Rightarrow> metrics_state" where
  \<comment> \<open>\<open>editedCorrection\<close> is the text of the correction box\<close>
  "handleSaveCorrection editedCorrection st =
     (case currentFlagged st of
        None \<Rightarrow> st
      | Some cur \<Rightarrow>
          if trim editedCorrection = [] then st
          else st\<lparr>evalResults :=
                     map (\<lambda>item. if resp_id item = resp_id cur
                                  then item\<lparr>correctedAnswer := Some editedCorrection,
                                            resp_status := Corrected\<rparr>
                                  else item) (evalResults st),
                   flaggedIndex :=
                     (if flaggedIndex st < length (flaggedItems (evalResults st)) - 1
                      then flaggedIndex st + 1 else flaggedIndex st)\<rparr>)"

definition set_status_and_move :: "eval_status \<Rightarrow> metrics_state \<Rightarrow> metrics_state" where
  \<comment> \<open>the common body of \<open>handleAcceptAsIs\<close> and \<open>handleRejectItem\<close>; the queue length
      compared with is the one of the render the handler was created in\<close>
  "set_status_and_move s st =
     (case currentFlagged st of
        None \<Rightarrow> st
      | Some cur \<Rightarrow>
          st\<lparr>evalResults :=
                map (\<lambda>item. if resp_id item = resp_id cur then item\<lparr>resp_status := s\<rparr> else item)
                    (evalResults st),
              flaggedIndex :=
                (if flaggedIndex st < length (flaggedItems (evalResults st)) - 1
                 then flaggedIndex st + 1
                 else if flaggedIndex st > 0 then flaggedIndex st - 1
                 else flaggedIndex st)\<rparr>)"

definition handleAcceptAsIs :: "metrics_state \<Rightarrow> metrics_state" where
  "handleAcceptAsIs st = set_status_and_move Accepted st"

definition handleRejectItem :: "metrics_state \<Rightarrow> metrics_state" where
  "handleRejectItem st = set_status_and_move Rejected st"

definition exportCorrections :: "eval_item list \<Rightarrow> string + message list list" where
  \<comment> \<open>\<open>Inl\<close> is the alert, nothing being written; \<open>Inr exportData\<close> is the list whose
      entries are serialised, one per line, into the downloaded file\<close>
  "exportCorrections rs =
     (let corrected = filter (\<lambda>r. resp_status r = Corrected) rs
      in if corrected = [] then Inl ''No corrections to export''
         else Inr (map (\<lambda>item. [\<lparr>role = ''user'', content = Some (resp_question item)\<rparr>,
                                 \<lparr>role = ''assistant'', content = correctedAnswer item\<rparr>])
                       corrected))"

section \<open>Snapshot of the review store\<close>

record file_info =
  file_name :: string
  file_type :: string
  converted :: bool

record review_state =
  trainingData :: "item list"
  fileInfo :: "file_info option"
  currentIndex :: nat
  editMode :: bool
  editedAnswer :: string

text \<open>
  The saved document. \<open>handleSave\<close> writes it with \<open>JSON.stringify\<close> and
  \<open>handleResumeFileLoad\<close> reads a file back with \<open>JSON.parse\<close>; both are the platform's,
  and the document is modelled as the value they carry. A file read back may lack any of
  the properties.
\<close>

record save_data =
  sd_data :: "item list option"
  sd_fileInfo :: "file_info option"
  sd_currentIndex :: "nat option"
  sd_savedAt :: "string option"

definition updateCurrentAnswer :: "string \<Rightarrow> review_state \<Rightarrow> review_state" where
  "updateCurrentAnswer newAnswer st =
     (case nth_opt (trainingData st) (currentIndex st) of
        None \<Rightarrow> st
      | Some item \<Rightarrow>
          (let item' =
                 (case messages item of
                    Some ms \<Rightarrow>
                      item\<lparr>messages :=
                             Some [(case nth_opt ms 0 of Some m \<Rightarrow> m | None \<Rightarrow> None),
                                   Some \<lparr>role = ''assistant'', content = Some newAnswer\<rparr>]\<rparr>
                  | None \<Rightarrow>
                      if cot_answer item \<noteq> None then item\<lparr>cot_answer := Some newAnswer\<rparr>
                      else item\<lparr>answer := Some newAnswer\<rparr>)
           in st\<lparr>trainingData := (trainingData st)[currentIndex st := item']\<rparr>))"

definition handleSave :: "string \<Rightarrow> review_state \<Rightarrow> save_data option \<times> review_state" where
  \<comment> \<open>the document written (none when the store is empty) and the store afterwards;
      \<open>now\<close> is the clock reading. The document is built from the \<open>trainingData\<close> of the
      render the handler belongs to: an edit in progress is sent to the store but is not in
      the document.\<close>
  "handleSave now st =
     (if trainingData st = [] then (None, st)
      else (Some \<lparr>sd_data = Some (trainingData st), sd_fileInfo = fileInfo st,
                  sd_currentIndex = Some (currentIndex st), sd_savedAt = Some now\<rparr>,
            if editMode st then updateCurrentAnswer (editedAnswer st) st else st))"

definition handleResumeFileLoad :: "(string \<times> (string + save_data)) option \<Rightarrow> review_state \<Rightarrow> review_state" where
  \<comment> \<open>the chosen file, if any: its name and what \<open>JSON.parse\<close> makes of its text, \<open>Inl\<close>
      being the message of the exception, after which only an alert is shown\<close>
  "handleResumeFileLoad file st =
     (case file of
        None \<Rightarrow> st
      | Some (fname, Inl err) \<Rightarrow> st
      | Some (fname, Inr saveData) \<Rightarrow>
          st\<lparr>trainingData := (case sd_data saveData of Some d \<Rightarrow> d | None \<Rightarrow> []),
              fileInfo := Some (case sd_fileInfo saveData of
                                  Some f \<Rightarrow> f
                                | None \<Rightarrow> \<lparr>file_name = fname, file_type = ''JSON'', converted = False\<rparr>),
              currentIndex := (case sd_currentIndex saveData of Some k \<Rightarrow> k | None \<Rightarrow> 0),
              editMode := False\<rparr>)"

section \<open>RAFT sample synthesis\<close>

record doc =
  doc_id :: string
  doc_content :: string
  is_oracle :: bool

record raft_config =
  numDistractors :: int
  oracleProbability :: real

record found_doc =
  found_id :: string
  found_content :: string
  distance :: "real option"

record search_result =
  success :: bool
  documents :: "found_doc list"
  search_error :: "string option"

text \<open>
  What a synthesis call takes from outside: whether the search service is configured and
  connected, what \<open>searchWeaviate(query, config, limit, excludeContent)\<close> returns, the
  number \<open>Math.random()\<close> gives for the inclusion test, and the outcome of each
  \<open>sort(() => Math.random() - 0.5)\<close>, which rearranges the array it is given.
\<close>

record raft_env =
  weaviate_ready :: bool
  searchWeaviate :: "string \<Rightarrow> int \<Rightarrow> string \<Rightarrow> search_result"
  draw :: real
  shuffle_docs :: "doc list \<Rightarrow> doc list"
  shuffle_items :: "item list \<Rightarrow> item list"

fun string_of_nat :: "nat \<Rightarrow> string" where
  \<comment> \<open>a non-negative integer in a template literal\<close>
  "string_of_nat n =
     (if n < 10 then [char_of (48 + n)]
      else string_of_nat (n div 10) @ [char_of (48 + n mod 10)])"

declare string_of_nat.simps [simp del]

definition generateCotAnswer :: "string \<Rightarrow> string \<Rightarrow> nat \<Rightarrow> string" where
  "generateCotAnswer q a oracleDocNum =
     ''Let me analyze the provided documents to answer: '' @ q @ [CHR 0x0A, CHR 0x0A]
     @ ''Looking at Document '' @ string_of_nat oracleDocNum
     @ '', I find relevant information that addresses this question.'' @ [CHR 0x0A, CHR 0x0A]
     @ ''Based on Document '' @ string_of_nat oracleDocNum @ '', the answer is:''
     @ [CHR 0x0A, CHR 0x0A] @ a"

definition refusal_answer :: "string \<Rightarrow> string" where
  \<comment> \<open>the answer of the branch without the oracle\<close>
  "refusal_answer q =
     ''I'' @ [CHR 0x27] @ ''ve reviewed the provided documents looking for information about: '' @ q
     @ [CHR 0x0A, CHR 0x0A]
     @ ''However, none of the documents contain sufficient information to answer this question accurately. I would need additional sources to provide a reliable answer.''"

definition format_question :: "string \<Rightarrow> item \<Rightarrow> string" where
  "format_question dataFormat it =
     (if dataFormat = ''sharegpt'' then or_str (message_content it 0) []
      else or_str (or_js (instruction it) (question it)) [])"

definition format_answer :: "string \<Rightarrow> item \<Rightarrow> string" where
  "format_answer dataFormat it =
     (if dataFormat = ''sharegpt'' then or_str (message_content it 1) []
      else or_str (or_js (cot_answer it) (answer it)) [])"

fun fallback_loop :: "string \<Rightarrow> nat \<Rightarrow> item list \<Rightarrow> doc list" where
  \<comment> \<open>the \<open>for\<close> loop of \<open>createFallbackDistractors\<close> from index \<open>i\<close> on, over the items
      still to be visited\<close>
  "fallback_loop dataFormat i [] = []"
| "fallback_loop dataFormat i (it # rest) =
     \<lparr>doc_id = ''distractor_'' @ or_str (item_id it) (string_of_nat i),
      doc_content = format_question dataFormat it @ [CHR 0x0A, CHR 0x0A] @ format_answer dataFormat it,
      is_oracle = False\<rparr>
     # fallback_loop dataFormat (Suc i) rest"

definition createFallbackDistractors ::
  "(item list \<Rightarrow> item list) \<Rightarrow> item list \<Rightarrow> nat \<Rightarrow> int \<Rightarrow> string \<Rightarrow> doc list" where
  "createFallbackDistractors shuffle allItems current n dataFormat =
     (let otherItems = map snd (filter (\<lambda>(idx, _). idx \<noteq> current) (enumerate 0 allItems));
          shuffled = shuffle otherItems
      in fallback_loop dataFormat 0 (take (nat (min n (int (length shuffled)))) shuffled))"

definition slice0 :: "'a list \<Rightarrow> int \<Rightarrow> 'a list" where
  \<comment> \<open>\<open>xs.slice(0, n)\<close>; a negative \<open>n\<close> counts from the end\<close>
  "slice0 xs n = (if 0 \<le> n then take (nat n) xs else take (length xs - nat (- n)) xs)"

fun findIndex :: "('a \<Rightarrow> bool) \<Rightarrow> 'a list \<Rightarrow> nat option" where
  \<comment> \<open>\<open>xs.findIndex(p)\<close>; \<open>None\<close> is \<open>-1\<close>\<close>
  "findIndex p [] = None"
| "findIndex p (x # xs) = (if p x then Some 0 else map_option Suc (findIndex p xs))"

fun context_parts :: "nat \<Rightarrow> doc list \<Rightarrow> string list" where
  \<comment> \<open>\<open>documents.map((doc, idx) => ...)\<close> from index \<open>idx\<close> on\<close>
  "context_parts idx [] = []"
| "context_parts idx (d # ds) =
     (''[Document '' @ string_of_nat (idx + 1) @ '']'' @ [CHR 0x0A] @ doc_content d)
     # context_parts (Suc idx) ds"

record raft_sample =
  sample_messages :: "message list"
  sample_id :: "string option"
  raft_prepared :: bool
  oracle_included :: bool
  weaviate_distractors :: bool

record raft_progress =
  prepared :: "raft_sample list"
  weaviateSuccessCount :: nat
  fallbackCount :: nat

definition weaviate_distractors_for :: "raft_config \<Rightarrow> raft_env \<Rightarrow> string \<Rightarrow> string \<Rightarrow> doc list option" where
  \<comment> \<open>lines 1564 to 1586: the distractors taken from the search, \<open>None\<close> when the search is
      skipped, fails or finds nothing\<close>
  "weaviate_distractors_for cfg env q a =
     (if weaviate_ready env then
        (let result = searchWeaviate env q (numDistractors cfg + 5) a
         in if success result \<and> length (documents result) > 0
            then Some (map (\<lambda>d. \<lparr>doc_id = found_id d, doc_content = found_content d, is_oracle = False\<rparr>)
                           (slice0 (documents result) (numDistractors cfg)))
            else None)
      else None)"

definition raft_distractors :: "raft_config \<Rightarrow> raft_env \<Rightarrow> item list \<Rightarrow> nat \<Rightarrow> item \<Rightarrow> doc list" where
  \<comment> \<open>lines 1561 to 1600: the search result, topped up from the other accepted items\<close>
  "raft_distractors cfg env acceptedItems i it =
     (let found = (case weaviate_distractors_for cfg env (getQuestion it) (getAnswer it) of
                     Some ds \<Rightarrow> ds | None \<Rightarrow> [])
      in if int (length found) < numDistractors cfg
         then found @ createFallbackDistractors (shuffle_items env) acceptedItems i
                        (numDistractors cfg - int (length found)) ''sharegpt''
         else found)"

definition oracle_document :: "nat \<Rightarrow> item \<Rightarrow> doc" where
  "oracle_document i it =
     \<lparr>doc_id = ''oracle_'' @ or_str (item_id it) (string_of_nat i),
      doc_content = getQuestion it @ [CHR 0x0A, CHR 0x0A] @ getAnswer it,
      is_oracle = True\<rparr>"

definition raft_documents :: "raft_config \<Rightarrow> raft_env \<Rightarrow> item list \<Rightarrow> nat \<Rightarrow> item \<Rightarrow> doc list \<times> string" where
  \<comment> \<open>lines 1602 to 1624: the local variables \<open>documents\<close> and \<open>cotAnswer\<close>\<close>
  "raft_documents cfg env acceptedItems i it =
     (let distractors = raft_distractors cfg env acceptedItems i it;
          oracleDoc = oracle_document i it;
          includeOracle = (draw env < oracleProbability cfg)
      in if includeOracle
         then (let docs = shuffle_docs env (oracleDoc # distractors);
                   oraclePosition = (case findIndex is_oracle docs of None \<Rightarrow> 0 | Some k \<Rightarrow> k + 1)
               in (docs, generateCotAnswer (getQuestion it) (getAnswer it) oraclePosition))
         else (distractors, refusal_answer (getQuestion it)))"

definition prepare_item ::
  "raft_config \<Rightarrow> raft_env \<Rightarrow> item list \<Rightarrow> nat \<Rightarrow> item \<Rightarrow> raft_progress \<Rightarrow> raft_progress" where
  \<comment> \<open>one turn of the loop of \<open>handlePrepareRaft\<close>\<close>
  "prepare_item cfg env acceptedItems i it pr =
     (let found = weaviate_distractors_for cfg env (getQuestion it) (getAnswer it);
          wsc = (if found \<noteq> None then weaviateSuccessCount pr + 1 else weaviateSuccessCount pr);
          distractors = raft_distractors cfg env acceptedItems i it;
          fc = (if int (length (case found of Some ds \<Rightarrow> ds | None \<Rightarrow> [])) < numDistractors cfg
                   \<and> length distractors > 0 \<and> wsc = 0
                then fallbackCount pr + 1 else fallbackCount pr);
          (docs, cotAnswer) = raft_documents cfg env acceptedItems i it;
          contextStr = join_with [CHR 0x0A, CHR 0x0A] (context_parts 0 docs);
          userContent =
            ''Based on the following documents, answer the question.'' @ [CHR 0x0A]
            @ ''If the answer is found in one of the documents, cite it by document number.''
            @ [CHR 0x0A, CHR 0x0A] @ contextStr @ [CHR 0x0A, CHR 0x0A]
            @ ''Question: '' @ getQuestion it
      in \<lparr>prepared = prepared pr @
             [\<lparr>sample_messages = [\<lparr>role = ''user'', content = Some userContent\<rparr>,
                                   \<lparr>role = ''assistant'', content = Some cotAnswer\<rparr>],
               sample_id = item_id it,
               raft_prepared = True,
               oracle_included = (draw env < oracleProbability cfg),
               weaviate_distractors = (wsc > 0)\<rparr>],
          weaviateSuccessCount = wsc,
          fallbackCount = fc\<rparr>)"

fun handlePrepareRaft_loop ::
  "raft_config \<Rightarrow> (nat \<Rightarrow> raft_env) \<Rightarrow> item list \<Rightarrow> nat \<Rightarrow> item list \<Rightarrow> raft_progress \<Rightarrow> raft_progress" where
  \<comment> \<open>the loop from index \<open>i\<close> on; \<open>env i\<close> is the outside world at turn \<open>i\<close>\<close>
  "handlePrepareRaft_loop cfg env acceptedItems i [] pr = pr"
| "handlePrepareRaft_loop cfg env acceptedItems i (it # rest) pr =
     handlePrepareRaft_loop cfg env acceptedItems (Suc i) rest
       (prepare_item cfg (env i) acceptedItems i it pr)"

definition handlePrepareRaft ::
  "raft_config \<Rightarrow> (nat \<Rightarrow> raft_env) \<Rightarrow> item list \<Rightarrow> string + raft_sample list" where
  \<comment> \<open>\<open>Inl\<close> is the alert; \<open>Inr\<close> is what \<open>setRaftPreparedData\<close> receives\<close>
  "handlePrepareRaft cfg env items =
     (let acceptedItems = filter (\<lambda>it. item_status it = Some ''accepted'' \<or> item_status it = Some ''edited'') items
      in if acceptedItems = []
         then Inl ''No accepted items to prepare. Accept some items in Data Review first.''
         else Inr (prepared (handlePrepareRaft_loop cfg env acceptedItems 0 acceptedItems
                     \<lparr>prepared = [], weaviateSuccessCount = 0, fallbackCount = 0\<rparr>)))"

section \<open>Auxiliary predicates of the proofs\<close>

definition fields_ok :: "string list \<Rightarrow> bool" where
  \<comment> \<open>every field of a row is its own trimming\<close>
  "fields_ok r = list_all (\<lambda>f. trim f = f) r"

definition csv_inv :: "csv_state \<Rightarrow> bool" where
  \<comment> \<open>the invariant of the scanning loop\<close>
  "csv_inv st = (list_all fields_ok (rows st) \<and> fields_ok (currentRow st)
                 \<and> list_all some_nonempty (rows st))"

definition csv_headers :: "string \<Rightarrow> string list" where
  "csv_headers csvText =
     map (\<lambda>h. filter (\<lambda>c. c \<noteq> CHR 0x22) (toLowerCase h)) (hd (parseCSV csvText))"

definition cell :: "string list \<Rightarrow> string option \<Rightarrow> bool" where
  \<comment> \<open>a value that, when present, is a field of the row or the empty string\<close>
  "cell vals x = (case x of None \<Rightarrow> True | Some v \<Rightarrow> v \<in> insert [] (set vals))"

definition sample_response :: "string \<Rightarrow> eval_status \<Rightarrow> eval_item" where
  \<comment> \<open>a fixture: the evaluation record with the given id and status\<close>
  "sample_response i s =
     \<lparr>resp_id = i, resp_question = ''Q '' @ i, expected_answer = ''E '' @ i,
      model_response = ''R '' @ i, resp_status = s, evalScore = None, rawScore = None,
      evalExplanation = None, evaluatedAt = None, correctedAnswer = None\<rparr>"



section \<open>Properties of the tabular importer\<close>

lemma trim_Nil: "trim [] = []"
  by (simp add: trim_def)

lemma trim_no_leading: "dropWhile is_ws (trim s) = trim s"
proof -
  define u where "u = dropWhile is_ws s"
  define v where "v = dropWhile is_ws (rev u)"
  have t: "trim s = rev v" by (simp add: trim_def u_def v_def)
  show ?thesis
  proof (cases "v = []")
    case True
    then show ?thesis by (simp add: t)
  next
    case False
    have "rev u = takeWhile is_ws (rev u) @ v" by (simp add: v_def)
    then have "last (rev u) = last v" using False by (metis last_appendR)
    then have lv: "last v = hd u" by (simp add: last_rev)
    have "u \<noteq> []" using False by (auto simp: v_def)
    then have "\<not> is_ws (hd u)" unfolding u_def by (rule hd_dropWhile)
    then have "\<not> is_ws (hd (rev v))" by (simp add: hd_rev lv)
    then show ?thesis by (simp add: t dropWhile_eq_self_iff)
  qed
qed

lemma trim_idem: "trim (trim s) = trim s"
proof -
  have "trim (trim s) = rev (dropWhile is_ws (rev (trim s)))"
    by (simp add: trim_def[of "trim s"] trim_no_leading)
  also have "\<dots> = trim s" by (simp add: trim_def)
  finally show ?thesis .
qed

lemma fields_ok_Nil: "fields_ok []"
  by (simp add: fields_ok_def)

lemma fields_ok_snoc: "fields_ok r \<Longrightarrow> fields_ok (r @ [trim f])"
  by (simp add: fields_ok_def trim_idem)

lemma csv_inv_end_field: "csv_inv st \<Longrightarrow> csv_inv (end_field st)"
  by (simp add: csv_inv_def end_field_def fields_ok_snoc)

lemma csv_inv_end_row: "csv_inv st \<Longrightarrow> csv_inv (end_row st)"
  by (simp add: csv_inv_def end_row_def Let_def fields_ok_snoc fields_ok_Nil)

lemma csv_inv_field: "csv_inv st \<Longrightarrow> csv_inv (st\<lparr>currentField := f\<rparr>)"
  by (simp add: csv_inv_def)

lemma csv_inv_quotes: "csv_inv st \<Longrightarrow> csv_inv (st\<lparr>inQuotes := b\<rparr>)"
  by (simp add: csv_inv_def)

lemma parseCSV_loop_inv: "csv_inv st \<Longrightarrow> csv_inv (parseCSV_loop cs st)"
proof (induction cs st rule: parseCSV_loop.induct)
  case (1 st)
  then show ?case by simp
next
  case (2 c cs st)
  show ?case
    using "2.IH" "2.prems" csv_inv_end_field[of st] csv_inv_end_row[of st]
      csv_inv_field[of st] csv_inv_quotes[of st]
    by (auto simp del: parseCSV_loop.simps simp add: parseCSV_loop.simps(2)[of c cs st])
qed

lemma parseCSV_rows_ok:
  "list_all fields_ok (parseCSV csvText) \<and> list_all some_nonempty (parseCSV csvText)"
proof -
  define st0 where "st0 = \<lparr>rows = [], currentRow = [], currentField = [], inQuotes = False\<rparr>"
  have "csv_inv st0" by (simp add: csv_inv_def st0_def fields_ok_Nil)
  then have "csv_inv (parseCSV_loop csvText st0)" by (rule parseCSV_loop_inv)
  then show ?thesis
    unfolding parseCSV_def st0_def[symmetric] by (simp add: csv_inv_def Let_def fields_ok_snoc)
qed

lemma csvToJson_rows_sharegpt:
  "csvToJson_rows ''sharegpt'' hs rs =
     map (\<lambda>vals. sharegpt_record (build_row hs vals) vals) (filter (\<lambda>vals. 2 \<le> length vals) rs)"
  by (induction rs) (auto simp: Let_def)

lemma length_csvToJson_rows: "length (csvToJson_rows fmt hs rs) \<le> length rs"
  by (induction rs) (auto simp: Let_def)

lemma csvToJson_sharegpt_map:
  "csvToJson csvText ''sharegpt'' =
     map (\<lambda>vals. sharegpt_record (build_row (csv_headers csvText) vals) vals)
         (filter (\<lambda>vals. 2 \<le> length vals) (tl (parseCSV csvText)))"
proof (cases "length (parseCSV csvText) < 2")
  case True
  then have "tl (parseCSV csvText) = []"
    by (cases "parseCSV csvText") auto
  with True show ?thesis by (simp add: csvToJson_def)
next
  case False
  then show ?thesis
    by (simp add: csvToJson_def Let_def csvToJson_rows_sharegpt csv_headers_def)
qed

lemma fold_row_range:
  "\<forall>k v. m k = Some v \<longrightarrow> v \<in> insert [] (set vals) \<Longrightarrow>
   fold (\<lambda>(idx, h) row. row(h \<mapsto> or_str (nth_opt vals idx) [])) ps m k = Some v \<Longrightarrow>
   v \<in> insert [] (set vals)"
proof (induction ps arbitrary: m)
  case Nil
  then show ?case by simp
next
  case (Cons p ps)
  obtain idx h where p: "p = (idx, h)" by (cases p)
  have "or_str (nth_opt vals idx) [] \<in> insert [] (set vals)"
    by (auto simp: or_str_def nth_opt_def)
  then have "\<forall>k v. (m(h \<mapsto> or_str (nth_opt vals idx) [])) k = Some v \<longrightarrow> v \<in> insert [] (set vals)"
    using Cons.prems(1) by auto
  from Cons.IH[OF this] Cons.prems(2) show ?case by (simp add: p)
qed

lemma build_row_range: "build_row hs vals k = Some v \<Longrightarrow> v \<in> insert [] (set vals)"
  unfolding build_row_def by (rule fold_row_range[where m = Map.empty]) auto

lemma cell_row: "cell vals (build_row hs vals k)"
  by (auto simp: cell_def dest: build_row_range split: option.splits)

lemma cell_nth: "cell vals (nth_opt vals i)"
  by (auto simp: cell_def nth_opt_def)

lemma cell_or: "cell vals a \<Longrightarrow> cell vals b \<Longrightarrow> cell vals (or_js a b)"
  by (simp add: or_js_def)

lemma cell_or_str: "cell vals a \<Longrightarrow> or_str a [] \<in> insert [] (set vals)"
  by (auto simp: cell_def or_str_def split: option.splits)

lemma truthy_or_js: "truthy b \<Longrightarrow> truthy (or_js a b)"
  by (simp add: or_js_def)

lemma truthy_or_str: "truthy a \<Longrightarrow> or_str a [] \<noteq> []"
  by (auto simp: truthy_def or_str_def split: option.splits)

lemma getQuestion_sharegpt:
  "getQuestion (sharegpt_record row vals) =
     or_str (or_js (or_js (or_js (or_js (row ''question'') (row ''prompt'')) (row ''input'')) (row ''q''))
                (nth_opt vals 0)) []"
  by (simp add: getQuestion_def sharegpt_record_def message_content_def empty_item_def nth_opt_def
        or_js_def or_str_def truthy_def split: option.splits)

lemma getAnswer_sharegpt:
  "getAnswer (sharegpt_record row vals) =
     or_str (or_js (or_js (or_js (or_js (row ''answer'') (row ''response'')) (row ''output'')) (row ''a''))
                (nth_opt vals 1)) []"
  by (simp add: getAnswer_def sharegpt_record_def message_content_def empty_item_def nth_opt_def
        or_js_def or_str_def truthy_def split: option.splits)

lemma sharegpt_record_fields:
  assumes "2 \<le> length vals"
  shows "(vals ! 0 \<noteq> [] \<longrightarrow> getQuestion (sharegpt_record (build_row hs vals) vals) \<noteq> [])"
    and "(vals ! 1 \<noteq> [] \<longrightarrow> getAnswer (sharegpt_record (build_row hs vals) vals) \<noteq> [])"
    and "getQuestion (sharegpt_record (build_row hs vals) vals) \<in> insert [] (set vals)"
    and "getAnswer (sharegpt_record (build_row hs vals) vals) \<in> insert [] (set vals)"
proof -
  show "vals ! 0 \<noteq> [] \<longrightarrow> getQuestion (sharegpt_record (build_row hs vals) vals) \<noteq> []"
    using assms unfolding getQuestion_sharegpt
    by (auto intro!: truthy_or_str truthy_or_js simp: nth_opt_def truthy_def)
  show "vals ! 1 \<noteq> [] \<longrightarrow> getAnswer (sharegpt_record (build_row hs vals) vals) \<noteq> []"
    using assms unfolding getAnswer_sharegpt
    by (auto intro!: truthy_or_str truthy_or_js simp: nth_opt_def truthy_def)
  show "getQuestion (sharegpt_record (build_row hs vals) vals) \<in> insert [] (set vals)"
    unfolding getQuestion_sharegpt by (intro cell_or_str cell_or cell_row cell_nth)
  show "getAnswer (sharegpt_record (build_row hs vals) vals) \<in> insert [] (set vals)"
    unfolding getAnswer_sharegpt by (intro cell_or_str cell_or cell_row cell_nth)
qed

text \<open>
  Claim C3, as the code has it. The rows that become records are the parsed rows after
  the header row that have at least two fields, empty fields counted: the records are as
  many as these rows and in their order, so a row with fewer than two fields never becomes
  a record. Each such row has a non-empty field. The question of its record is non-empty
  whenever the first field of the row is, the answer is non-empty whenever the second
  field is, and both are trimmed.
\<close>

theorem csvToJson_sharegpt_records:
  "length (csvToJson csvText ''sharegpt'')
     = length (filter (\<lambda>vals. 2 \<le> length vals) (tl (parseCSV csvText))) \<and>
   (\<forall>i < length (csvToJson csvText ''sharegpt'').
      let r = csvToJson csvText ''sharegpt'' ! i;
          vals = filter (\<lambda>vals. 2 \<le> length vals) (tl (parseCSV csvText)) ! i
      in some_nonempty vals \<and>
         (vals ! 0 \<noteq> [] \<longrightarrow> getQuestion r \<noteq> []) \<and>
         (vals ! 1 \<noteq> [] \<longrightarrow> getAnswer r \<noteq> []) \<and>
         trim (getQuestion r) = getQuestion r \<and> trim (getAnswer r) = getAnswer r)"
proof -
  define dataRows where "dataRows = filter (\<lambda>vals. 2 \<le> length vals) (tl (parseCSV csvText))"
  define mk where "mk = (\<lambda>vals. sharegpt_record (build_row (csv_headers csvText) vals) vals)"
  have eq: "csvToJson csvText ''sharegpt'' = map mk dataRows"
    by (simp add: csvToJson_sharegpt_map dataRows_def mk_def)
  have sub: "set dataRows \<subseteq> set (parseCSV csvText)"
    unfolding dataRows_def by (cases "parseCSV csvText") auto
  have row: "some_nonempty vals \<and>
         (vals ! 0 \<noteq> [] \<longrightarrow> getQuestion (mk vals) \<noteq> []) \<and>
         (vals ! 1 \<noteq> [] \<longrightarrow> getAnswer (mk vals) \<noteq> []) \<and>
         trim (getQuestion (mk vals)) = getQuestion (mk vals) \<and>
         trim (getAnswer (mk vals)) = getAnswer (mk vals)" if "vals \<in> set dataRows" for vals
  proof -
    from that have len: "2 \<le> length vals" by (simp add: dataRows_def)
    from that sub parseCSV_rows_ok[of csvText]
    have ok: "fields_ok vals" and ne: "some_nonempty vals"
      by (auto simp: list_all_iff)
    have tr: "trim f = f" if "f \<in> insert [] (set vals)" for f
      using that ok by (auto simp: fields_ok_def list_all_iff trim_Nil)
    show ?thesis
      unfolding mk_def
      using sharegpt_record_fields[OF len, of "csv_headers csvText"] ne tr by blast
  qed
  show ?thesis
    unfolding dataRows_def[symmetric] eq
    by (simp add: Let_def row)
qed

theorem csvToJson_sharegpt_records_witness:
  "length (csvToJson (''question,answer'' @ [CHR 0x0A] @ ''What is X?,X is Y'') ''sharegpt'') = 1 \<and>
   getQuestion (csvToJson (''question,answer'' @ [CHR 0x0A] @ ''What is X?,X is Y'') ''sharegpt'' ! 0) \<noteq> [] \<and>
   getAnswer (csvToJson (''question,answer'' @ [CHR 0x0A] @ ''What is X?,X is Y'') ''sharegpt'' ! 0) \<noteq> []"
proof -
  have e: "filter (\<lambda>vals. 2 \<le> length vals)
             (tl (parseCSV (''question,answer'' @ [CHR 0x0A] @ ''What is X?,X is Y'')))
           = [ [''What is X?'', ''X is Y''] ]"
    by code_simp
  show ?thesis
    using csvToJson_sharegpt_records[of "''question,answer'' @ [CHR 0x0A] @ ''What is X?,X is Y''"]
    unfolding e by (simp add: Let_def)
qed

text \<open>
  Claim C3 as stated fails: the data row \<open>hello,\<close> has one non-empty field after
  trimming, yet it is not dropped, and its record has an empty answer.
\<close>

theorem csvToJson_empty_answer_counterexample:
  "csvToJson (''question,answer'' @ [CHR 0x0A] @ ''hello,'') ''sharegpt''
     = [empty_item\<lparr>messages := Some [Some \<lparr>role = ''user'', content = Some ''hello''\<rparr>,
                                      Some \<lparr>role = ''assistant'', content = Some []\<rparr>]\<rparr>]
   \<and> getAnswer (empty_item\<lparr>messages := Some [Some \<lparr>role = ''user'', content = Some ''hello''\<rparr>,
                                      Some \<lparr>role = ''assistant'', content = Some []\<rparr>]\<rparr>) = []"
  by code_simp

lemma csvToJson_rows_raft:
  "csvToJson_rows ''raft'' hs rs =
     map (\<lambda>vals. raft_record (build_row hs vals) vals) (filter (\<lambda>vals. 2 \<le> length vals) rs)"
  by (induction rs) (auto simp: Let_def)

lemma csvToJson_rows_other:
  "fmt \<noteq> ''sharegpt'' \<Longrightarrow> fmt \<noteq> ''raft'' \<Longrightarrow> csvToJson_rows fmt hs rs = []"
  by (induction rs) (auto simp: Let_def)

lemma csvToJson_rows_cases:
  "csvToJson_rows fmt hs rs =
     (if fmt = ''sharegpt''
      then map (\<lambda>vals. sharegpt_record (build_row hs vals) vals) (filter (\<lambda>vals. 2 \<le> length vals) rs)
      else if fmt = ''raft''
      then map (\<lambda>vals. raft_record (build_row hs vals) vals) (filter (\<lambda>vals. 2 \<le> length vals) rs)
      else [])"
  using csvToJson_rows_sharegpt[of hs rs] csvToJson_rows_raft[of hs rs] csvToJson_rows_other[of fmt hs rs]
  by presburger

text \<open>
  Claim C10. When the text parses to fewer than two rows the importer returns the empty
  sequence, whatever the format. In every case the first parsed row is used for the
  column names only and the records are built from the rows after it and from no other
  row: for the chat format and for the RAFT format the result is, in order, one record
  for each row after the first that has at least two fields, and for any other format it
  is empty. So the records are at most as many as the parsed rows less one, and the first
  row never becomes a record, also when it is a data line.
\<close>

theorem csvToJson_header_consumed:
  "(length (parseCSV csvText) < 2 \<longrightarrow> csvToJson csvText fmt = []) \<and>
   length (csvToJson csvText fmt) \<le> length (parseCSV csvText) - 1 \<and>
   csvToJson csvText fmt =
     (let headers = map (\<lambda>h. filter (\<lambda>c. c \<noteq> CHR 0x22) (toLowerCase h)) (hd (parseCSV csvText));
          dataRows = filter (\<lambda>vals. 2 \<le> length vals) (tl (parseCSV csvText))
      in if fmt = ''sharegpt''
         then map (\<lambda>vals. sharegpt_record (build_row headers vals) vals) dataRows
         else if fmt = ''raft''
         then map (\<lambda>vals. raft_record (build_row headers vals) vals) dataRows
         else [])"
proof -
  define hs where
    "hs = map (\<lambda>h. filter (\<lambda>c. c \<noteq> CHR 0x22) (toLowerCase h)) (hd (parseCSV csvText))"
  have short: "csvToJson csvText fmt = []" if "length (parseCSV csvText) < 2"
    using that by (simp add: csvToJson_def)
  have len: "length (csvToJson csvText fmt) \<le> length (parseCSV csvText) - 1"
    using length_csvToJson_rows[of fmt _ "tl (parseCSV csvText)"]
    by (auto simp: csvToJson_def Let_def)
  have rows: "csvToJson csvText fmt = csvToJson_rows fmt hs (tl (parseCSV csvText))"
  proof (cases "length (parseCSV csvText) < 2")
    case True
    then have "tl (parseCSV csvText) = []"
      by (cases "parseCSV csvText") auto
    with True show ?thesis by (simp add: csvToJson_def)
  next
    case False
    then show ?thesis by (simp add: csvToJson_def Let_def hs_def)
  qed
  have "csvToJson csvText fmt =
     (if fmt = ''sharegpt''
      then map (\<lambda>vals. sharegpt_record (build_row hs vals) vals)
             (filter (\<lambda>vals. 2 \<le> length vals) (tl (parseCSV csvText)))
      else if fmt = ''raft''
      then map (\<lambda>vals. raft_record (build_row hs vals) vals)
             (filter (\<lambda>vals. 2 \<le> length vals) (tl (parseCSV csvText)))
      else [])"
    unfolding rows by (rule csvToJson_rows_cases)
  with short len show ?thesis
    unfolding Let_def hs_def by blast
qed

theorem csvToJson_header_consumed_witness:
  "length (parseCSV ''What is X?,X is Y'') = 1 \<and> csvToJson ''What is X?,X is Y'' ''sharegpt'' = [] \<and>
   length (parseCSV []) = 0 \<and> csvToJson [] ''sharegpt'' = [] \<and>
   csvToJson (''q1,a1'' @ [CHR 0x0A] @ ''q2,a2'') ''sharegpt''
     = [empty_item\<lparr>messages := Some [Some \<lparr>role = ''user'', content = Some ''q2''\<rparr>,
                                      Some \<lparr>role = ''assistant'', content = Some ''a2''\<rparr>]\<rparr>]"
proof -
  have h: "length (parseCSV ''What is X?,X is Y'') = 1" by code_simp
  then have "length (parseCSV ''What is X?,X is Y'') < 2" by simp
  with csvToJson_header_consumed[of "''What is X?,X is Y''" "''sharegpt''"]
  have one: "csvToJson ''What is X?,X is Y'' ''sharegpt'' = []" by blast
  have e: "length (parseCSV []) = 0" by code_simp
  then have "length (parseCSV []) < 2" by simp
  with csvToJson_header_consumed[of "[]" "''sharegpt''"]
  have none: "csvToJson [] ''sharegpt'' = []" by blast
  have r: "(let headers = map (\<lambda>h. filter (\<lambda>c. c \<noteq> CHR 0x22) (toLowerCase h))
                            (hd (parseCSV (''q1,a1'' @ [CHR 0x0A] @ ''q2,a2'')));
                dataRows = filter (\<lambda>vals. 2 \<le> length vals)
                             (tl (parseCSV (''q1,a1'' @ [CHR 0x0A] @ ''q2,a2'')))
            in if ''sharegpt'' = ''sharegpt''
               then map (\<lambda>vals. sharegpt_record (build_row headers vals) vals) dataRows
               else if ''sharegpt'' = ''raft''
               then map (\<lambda>vals. raft_record (build_row headers vals) vals) dataRows
               else [])
           = [empty_item\<lparr>messages := Some [Some \<lparr>role = ''user'', content = Some ''q2''\<rparr>,
                                            Some \<lparr>role = ''assistant'', content = Some ''a2''\<rparr>]\<rparr>]"
    by code_simp
  from csvToJson_header_consumed[of "''q1,a1'' @ [CHR 0x0A] @ ''q2,a2''" "''sharegpt''"]
  have two: "csvToJson (''q1,a1'' @ [CHR 0x0A] @ ''q2,a2'') ''sharegpt''
     = [empty_item\<lparr>messages := Some [Some \<lparr>role = ''user'', content = Some ''q2''\<rparr>,
                                      Some \<lparr>role = ''assistant'', content = Some ''a2''\<rparr>]\<rparr>]"
    unfolding r by blast
  from h one e none two show ?thesis by blast
qed

section \<open>Properties of the judge parser and of the evaluation batch\<close>

lemma split_on_nonempty: "split_on d s \<noteq> []"
  by (induction s) (auto split: list.splits)

text \<open>
  Claim C2. The four literal judge outputs parse to the scores 4, 2, 3 and 3: the first
  and the third by the single-digit first line, the second by the rating pattern (its
  first line is not a single digit), the last by the default, neither the rating pattern
  nor a digit in the first 50 characters being found; the default keeps the whole text
  as explanation.
\<close>

theorem parseJudgeOutput_literals:
  "parseJudgeOutput (''4'' @ [CHR 0x0A] @ ''Good answer'') = \<lparr>score = 4, explanation = ''Good answer''\<rparr> \<and>
   parseJudgeOutput ''Some preamble. Rating: 2. Needs work.'' = \<lparr>score = 2, explanation = ''. Needs work.''\<rparr> \<and>
   rating_match ''Some preamble. Rating: 2. Needs work.'' = Some (''Rating: 2'', CHR ''2'') \<and>
   parseJudgeOutput ''3'' = \<lparr>score = 3, explanation = []\<rparr> \<and>
   parseJudgeOutput ''no numeric signal here'' = \<lparr>score = 3, explanation = ''no numeric signal here''\<rparr> \<and>
   rating_match ''no numeric signal here'' = None \<and>
   find is_1_5 (take 50 ''no numeric signal here'') = None"
  by code_simp

lemma is_1_5_digit_value: "is_1_5 d \<Longrightarrow> 1 \<le> digit_value d \<and> digit_value d \<le> 5"
  unfolding is_1_5_def digit_value_def by linarith

lemma rating_at_digit: "rating_at s = Some (m, d) \<Longrightarrow> is_1_5 d"
  by (auto simp: rating_at_def Let_def split: if_splits list.splits)

lemma rating_match_digit: "rating_match s = Some (m, d) \<Longrightarrow> is_1_5 d"
  by (induction s) (auto split: option.splits dest: rating_at_digit)

lemma find_is_1_5: "find is_1_5 xs = Some d \<Longrightarrow> is_1_5 d"
  by (auto simp: find_Some_iff)

lemma parseJudgeOutput_score: "1 \<le> score (parseJudgeOutput out) \<and> score (parseJudgeOutput out) \<le> 5"
  by (auto simp: parseJudgeOutput_def Let_def split: option.splits
      dest!: rating_match_digit find_is_1_5 is_1_5_digit_value)

lemma runEvaluation_loop_eq:
  "runEvaluation_loop cfg judge now i items results =
     results @ map (\<lambda>(k, item). evaluate_item cfg judge now k item) (enumerate i items)"
  by (induction items arbitrary: i results) auto

lemma runEvaluation_loop_nth:
  "i < length items \<Longrightarrow>
   runEvaluation_loop cfg judge now 0 items [] ! i = evaluate_item cfg judge now i (items ! i)"
  by (simp add: runEvaluation_loop_eq nth_enumerate_eq)

lemma runEvaluation_loop_length:
  "length (runEvaluation_loop cfg judge now 0 items []) = length items"
  by (simp add: runEvaluation_loop_eq)

text \<open>
  Claim C4. For every batch, judge and clock, the loop returns one result per input
  record, in input order: the result at position \<open>i\<close> carries the id, question, expected
  answer and response of the input record at position \<open>i\<close>. When the judge call of that
  record fails with message \<open>msg\<close>, the result has status \<open>error\<close>, raw score 1,
  normalised score 0 and the explanation \<open>Error: msg\<close>; every other record is parsed and
  scored as usual. A batch that starts (a non-empty batch with the judge configured)
  stores exactly this list.
\<close>

theorem runEvaluation_one_result_per_record:
  "length (runEvaluation_loop cfg judge now 0 items []) = length items \<and>
   (\<forall>i < length items.
      let r = runEvaluation_loop cfg judge now 0 items [] ! i; item = items ! i
      in resp_id r = resp_id item \<and> resp_question r = resp_question item \<and>
         expected_answer r = expected_answer item \<and> model_response r = model_response item \<and>
         (case judge i (createJudgePrompt (resp_question item) (expected_answer item) (model_response item)) of
            Inl msg \<Rightarrow> resp_status r = Error \<and> rawScore r = Some 1 \<and> evalScore r = Some 0 \<and>
                       evalExplanation r = Some (''Error: '' @ msg)
          | Inr judgeOutput \<Rightarrow>
              (resp_status r = Flagged \<or> resp_status r = Passed) \<and>
              rawScore r = Some (score (parseJudgeOutput judgeOutput)) \<and>
              evalExplanation r = Some (explanation (parseJudgeOutput judgeOutput)))) \<and>
   (items \<noteq> [] \<and> judgeEndpoint cfg \<noteq> [] \<and> judgeApiKey cfg \<noteq> [] \<longrightarrow>
      runEvaluation cfg judge now items = Inr (runEvaluation_loop cfg judge now 0 items []))"
  by (auto simp: runEvaluation_loop_length runEvaluation_loop_nth Let_def evaluate_item_def
      runEvaluation_def split: sum.splits)

theorem runEvaluation_one_result_per_record_witness:
  "length (runEvaluation_loop \<lparr>scoreThreshold = 7 / 10, judgeEndpoint = ''ep'', judgeApiKey = ''key''\<rparr>
             (\<lambda>i p. if i = 0 then Inl ''timeout'' else Inr ''4'') (\<lambda>i. ''t'')
             0 [sample_response ''a'' Pending, sample_response ''b'' Pending] []) = 2 \<and>
   resp_status (runEvaluation_loop \<lparr>scoreThreshold = 7 / 10, judgeEndpoint = ''ep'', judgeApiKey = ''key''\<rparr>
             (\<lambda>i p. if i = 0 then Inl ''timeout'' else Inr ''4'') (\<lambda>i. ''t'')
             0 [sample_response ''a'' Pending, sample_response ''b'' Pending] [] ! 0) = Error \<and>
   evalScore (runEvaluation_loop \<lparr>scoreThreshold = 7 / 10, judgeEndpoint = ''ep'', judgeApiKey = ''key''\<rparr>
             (\<lambda>i p. if i = 0 then Inl ''timeout'' else Inr ''4'') (\<lambda>i. ''t'')
             0 [sample_response ''a'' Pending, sample_response ''b'' Pending] [] ! 0) = Some 0 \<and>
   evalExplanation (runEvaluation_loop \<lparr>scoreThreshold = 7 / 10, judgeEndpoint = ''ep'', judgeApiKey = ''key''\<rparr>
             (\<lambda>i p. if i = 0 then Inl ''timeout'' else Inr ''4'') (\<lambda>i. ''t'')
             0 [sample_response ''a'' Pending, sample_response ''b'' Pending] [] ! 0) = Some ''Error: timeout'' \<and>
   rawScore (runEvaluation_loop \<lparr>scoreThreshold = 7 / 10, judgeEndpoint = ''ep'', judgeApiKey = ''key''\<rparr>
             (\<lambda>i p. if i = 0 then Inl ''timeout'' else Inr ''4'') (\<lambda>i. ''t'')
             0 [sample_response ''a'' Pending, sample_response ''b'' Pending] [] ! 1)
     = Some (score (parseJudgeOutput ''4''))"
proof -
  let ?cfg = "\<lparr>scoreThreshold = 7 / 10, judgeEndpoint = ''ep'', judgeApiKey = ''key''\<rparr>"
  let ?judge = "\<lambda>(i::nat) (p::string). if i = 0 then Inl ''timeout'' else (Inr ''4'' :: string + string)"
  let ?items = "[sample_response ''a'' Pending, sample_response ''b'' Pending]"
  note t = runEvaluation_one_result_per_record[of ?cfg ?judge "\<lambda>i. ''t''" ?items]
  from t have len: "length (runEvaluation_loop ?cfg ?judge (\<lambda>i. ''t'') 0 ?items []) = 2"
    by simp
  from t have r0: "0 < length ?items \<longrightarrow>
      (let r = runEvaluation_loop ?cfg ?judge (\<lambda>i. ''t'') 0 ?items [] ! 0; item = ?items ! 0
       in resp_id r = resp_id item \<and> resp_question r = resp_question item \<and>
         expected_answer r = expected_answer item \<and> model_response r = model_response item \<and>
         (case ?judge 0 (createJudgePrompt (resp_question item) (expected_answer item) (model_response item)) of
            Inl msg \<Rightarrow> resp_status r = Error \<and> rawScore r = Some 1 \<and> evalScore r = Some 0 \<and>
                       evalExplanation r = Some (''Error: '' @ msg)
          | Inr judgeOutput \<Rightarrow>
              (resp_status r = Flagged \<or> resp_status r = Passed) \<and>
              rawScore r = Some (score (parseJudgeOutput judgeOutput)) \<and>
              evalExplanation r = Some (explanation (parseJudgeOutput judgeOutput))))"
    by blast
  from t have r1: "1 < length ?items \<longrightarrow>
      (let r = runEvaluation_loop ?cfg ?judge (\<lambda>i. ''t'') 0 ?items [] ! 1; item = ?items ! 1
       in resp_id r = resp_id item \<and> resp_question r = resp_question item \<and>
         expected_answer r = expected_answer item \<and> model_response r = model_response item \<and>
         (case ?judge 1 (createJudgePrompt (resp_question item) (expected_answer item) (model_response item)) of
            Inl msg \<Rightarrow> resp_status r = Error \<and> rawScore r = Some 1 \<and> evalScore r = Some 0 \<and>
                       evalExplanation r = Some (''Error: '' @ msg)
          | Inr judgeOutput \<Rightarrow>
              (resp_status r = Flagged \<or> resp_status r = Passed) \<and>
              rawScore r = Some (score (parseJudgeOutput judgeOutput)) \<and>
              evalExplanation r = Some (explanation (parseJudgeOutput judgeOutput))))"
    by blast
  from r0 have a: "resp_status (runEvaluation_loop ?cfg ?judge (\<lambda>i. ''t'') 0 ?items [] ! 0) = Error \<and>
      evalScore (runEvaluation_loop ?cfg ?judge (\<lambda>i. ''t'') 0 ?items [] ! 0) = Some 0 \<and>
      evalExplanation (runEvaluation_loop ?cfg ?judge (\<lambda>i. ''t'') 0 ?items [] ! 0) = Some ''Error: timeout''"
    by (simp add: Let_def)
  from r1 have b: "rawScore (runEvaluation_loop ?cfg ?judge (\<lambda>i. ''t'') 0 ?items [] ! 1)
      = Some (score (parseJudgeOutput ''4''))"
    by (simp add: Let_def)
  from len a b show ?thesis by blast
qed

text \<open>
  Claim C5. For a record of the batch whose judge call succeeds, the raw score \<open>n\<close> is
  the parsed score and lies between 1 and 5, the normalised score is \<open>(n - 1) / 4\<close> and
  lies between 0 and 1 (0 for raw score 1, 1 for raw score 5), and the status is
  \<open>flagged\<close> exactly when the normalised score is below the threshold and \<open>passed\<close>
  otherwise; with threshold 0.7, a normalised score 0.5 is flagged and 0.75 is passed.
\<close>

theorem evaluation_normalizes_and_flags:
  "i < length items \<Longrightarrow>
   judge i (createJudgePrompt (resp_question (items ! i)) (expected_answer (items ! i))
             (model_response (items ! i))) = Inr judgeOutput \<Longrightarrow>
   (let r = runEvaluation_loop cfg judge now 0 items [] ! i;
        n = score (parseJudgeOutput judgeOutput);
        ns = (real n - 1) / 4
    in rawScore r = Some n \<and> evalScore r = Some ns \<and>
       1 \<le> n \<and> n \<le> 5 \<and> 0 \<le> ns \<and> ns \<le> 1 \<and>
       (n = 1 \<longrightarrow> ns = 0) \<and> (n = 5 \<longrightarrow> ns = 1) \<and>
       (resp_status r = Flagged \<longleftrightarrow> ns < scoreThreshold cfg) \<and>
       (resp_status r = Passed \<longleftrightarrow> \<not> ns < scoreThreshold cfg) \<and>
       (scoreThreshold cfg = 7 / 10 \<longrightarrow>
          (ns = 1 / 2 \<longrightarrow> resp_status r = Flagged) \<and> (ns = 3 / 4 \<longrightarrow> resp_status r = Passed)))"
proof -
  assume i: "i < length items"
    and j: "judge i (createJudgePrompt (resp_question (items ! i)) (expected_answer (items ! i))
             (model_response (items ! i))) = Inr judgeOutput"
  define n where "n = score (parseJudgeOutput judgeOutput)"
  define ns where "ns = (real n - 1) / 4"
  define r where "r = runEvaluation_loop cfg judge now 0 items [] ! i"
  have rng: "1 \<le> n \<and> n \<le> 5" unfolding n_def by (rule parseJudgeOutput_score)
  then have bounds: "0 \<le> ns \<and> ns \<le> 1" unfolding ns_def by simp
  have ends: "(n = 1 \<longrightarrow> ns = 0) \<and> (n = 5 \<longrightarrow> ns = 1)" unfolding ns_def by simp
  have "r = evaluate_item cfg judge now i (items ! i)"
    unfolding r_def using i by (rule runEvaluation_loop_nth)
  then have fields: "rawScore r = Some n \<and> evalScore r = Some ns \<and>
      resp_status r = (if ns < scoreThreshold cfg then Flagged else Passed)"
    using j by (simp add: evaluate_item_def Let_def n_def ns_def)
  then have st: "(resp_status r = Flagged \<longleftrightarrow> ns < scoreThreshold cfg) \<and>
      (resp_status r = Passed \<longleftrightarrow> \<not> ns < scoreThreshold cfg)"
    by simp
  then have part: "scoreThreshold cfg = 7 / 10 \<longrightarrow>
      (ns = 1 / 2 \<longrightarrow> resp_status r = Flagged) \<and> (ns = 3 / 4 \<longrightarrow> resp_status r = Passed)"
    by simp
  from fields rng bounds ends st part show ?thesis
    unfolding Let_def r_def[symmetric] n_def[symmetric] ns_def[symmetric] by blast
qed

theorem evaluation_normalizes_and_flags_witness:
  "resp_status (runEvaluation_loop \<lparr>scoreThreshold = 7 / 10, judgeEndpoint = ''ep'', judgeApiKey = ''key''\<rparr>
             (\<lambda>i p. Inr ''3'') (\<lambda>i. ''t'') 0 [sample_response ''a'' Pending] [] ! 0) = Flagged \<and>
   evalScore (runEvaluation_loop \<lparr>scoreThreshold = 7 / 10, judgeEndpoint = ''ep'', judgeApiKey = ''key''\<rparr>
             (\<lambda>i p. Inr ''3'') (\<lambda>i. ''t'') 0 [sample_response ''a'' Pending] [] ! 0) = Some (1 / 2) \<and>
   resp_status (runEvaluation_loop \<lparr>scoreThreshold = 7 / 10, judgeEndpoint = ''ep'', judgeApiKey = ''key''\<rparr>
             (\<lambda>i p. Inr ''4'') (\<lambda>i. ''t'') 0 [sample_response ''a'' Pending] [] ! 0) = Passed \<and>
   evalScore (runEvaluation_loop \<lparr>scoreThreshold = 7 / 10, judgeEndpoint = ''ep'', judgeApiKey = ''key''\<rparr>
             (\<lambda>i p. Inr ''4'') (\<lambda>i. ''t'') 0 [sample_response ''a'' Pending] [] ! 0) = Some (3 / 4)"
proof -
  have s3: "score (parseJudgeOutput ''3'') = 3" by code_simp
  have s4: "score (parseJudgeOutput ''4'') = 4" by code_simp
  have l: "(0::nat) < length [sample_response ''a'' Pending]" by simp
  have a: "resp_status (runEvaluation_loop \<lparr>scoreThreshold = 7 / 10, judgeEndpoint = ''ep'', judgeApiKey = ''key''\<rparr>
             (\<lambda>i p. Inr ''3'') (\<lambda>i. ''t'') 0 [sample_response ''a'' Pending] [] ! 0) = Flagged \<and>
   evalScore (runEvaluation_loop \<lparr>scoreThreshold = 7 / 10, judgeEndpoint = ''ep'', judgeApiKey = ''key''\<rparr>
             (\<lambda>i p. Inr ''3'') (\<lambda>i. ''t'') 0 [sample_response ''a'' Pending] [] ! 0) = Some (1 / 2)"
    using evaluation_normalizes_and_flags[OF l, of "\<lambda>i p. Inr ''3''" "''3''"
      "\<lparr>scoreThreshold = 7 / 10, judgeEndpoint = ''ep'', judgeApiKey = ''key''\<rparr>" "\<lambda>i. ''t''"]
    by (simp add: Let_def s3)
  have b: "resp_status (runEvaluation_loop \<lparr>scoreThreshold = 7 / 10, judgeEndpoint = ''ep'', judgeApiKey = ''key''\<rparr>
             (\<lambda>i p. Inr ''4'') (\<lambda>i. ''t'') 0 [sample_response ''a'' Pending] [] ! 0) = Passed \<and>
   evalScore (runEvaluation_loop \<lparr>scoreThreshold = 7 / 10, judgeEndpoint = ''ep'', judgeApiKey = ''key''\<rparr>
             (\<lambda>i p. Inr ''4'') (\<lambda>i. ''t'') 0 [sample_response ''a'' Pending] [] ! 0) = Some (3 / 4)"
    using evaluation_normalizes_and_flags[OF l, of "\<lambda>i p. Inr ''4''" "''4''"
      "\<lparr>scoreThreshold = 7 / 10, judgeEndpoint = ''ep'', judgeApiKey = ''key''\<rparr>" "\<lambda>i. ''t''"]
    by (simp add: Let_def s4)
  from a b show ?thesis by blast
qed

section \<open>Properties of the correction feedback loop\<close>

text \<open>
  Claim C8. When no record has status \<open>corrected\<close>, \<open>exportCorrections\<close> exports nothing
  and raises the alert that there are no corrections to export. Otherwise the exported
  list is non-empty and holds, in stored order, one chat-message pair for each record
  whose status is \<open>corrected\<close> and for no other: the user message is the question, the
  assistant message the corrected answer.
\<close>

theorem exportCorrections_only_corrected:
  "(case exportCorrections rs of
      Inl msg \<Rightarrow> msg = ''No corrections to export'' \<and> (\<forall>r \<in> set rs. resp_status r \<noteq> Corrected)
    | Inr exportData \<Rightarrow>
        exportData \<noteq> [] \<and>
        length exportData = length (filter (\<lambda>r. resp_status r = Corrected) rs) \<and>
        (\<forall>i < length exportData.
           exportData ! i =
             [\<lparr>role = ''user'',
               content = Some (resp_question (filter (\<lambda>r. resp_status r = Corrected) rs ! i))\<rparr>,
              \<lparr>role = ''assistant'',
               content = correctedAnswer (filter (\<lambda>r. resp_status r = Corrected) rs ! i)\<rparr>]))"
  by (auto simp: exportCorrections_def Let_def filter_empty_conv)

theorem exportCorrections_only_corrected_witness:
  "exportCorrections [(sample_response ''a'' Corrected)\<lparr>correctedAnswer := Some ''fixed''\<rparr>,
                      sample_response ''b'' Flagged]
     = Inr [ [\<lparr>role = ''user'', content = Some ''Q a''\<rparr>,
             \<lparr>role = ''assistant'', content = Some ''fixed''\<rparr>] ]"
proof -
  let ?rs = "[(sample_response ''a'' Corrected)\<lparr>correctedAnswer := Some ''fixed''\<rparr>,
              sample_response ''b'' Flagged]"
  have f: "filter (\<lambda>r. resp_status r = Corrected) ?rs
             = [(sample_response ''a'' Corrected)\<lparr>correctedAnswer := Some ''fixed''\<rparr>]"
    by (simp add: sample_response_def)
  obtain res where res: "exportCorrections ?rs = res" by simp
  show ?thesis
  proof (cases res)
    case (Inl msg)
    with exportCorrections_only_corrected[of ?rs] res
    have "\<forall>r \<in> set ?rs. resp_status r \<noteq> Corrected" by simp
    then show ?thesis by (simp add: sample_response_def)
  next
    case (Inr exportData)
    with exportCorrections_only_corrected[of ?rs] res
    have l: "length exportData = 1"
      and e: "\<forall>i < length exportData. exportData ! i =
             [\<lparr>role = ''user'',
               content = Some (resp_question (filter (\<lambda>r. resp_status r = Corrected) ?rs ! i))\<rparr>,
              \<lparr>role = ''assistant'',
               content = correctedAnswer (filter (\<lambda>r. resp_status r = Corrected) ?rs ! i)\<rparr>]"
      unfolding f by simp_all
    from l e have "exportData ! 0 = [\<lparr>role = ''user'', content = Some ''Q a''\<rparr>,
             \<lparr>role = ''assistant'', content = Some ''fixed''\<rparr>]"
      unfolding f by (simp add: sample_response_def)
    with l have "exportData = [ [\<lparr>role = ''user'', content = Some ''Q a''\<rparr>,
             \<lparr>role = ''assistant'', content = Some ''fixed''\<rparr>] ]"
      by (cases exportData) auto
    with res Inr show ?thesis by simp
  qed
qed

text \<open>
  Claim C9, evaluated on the code. The queue holds two flagged records and the cursor
  is on the first. After \<open>handleAcceptAsIs\<close> (and likewise after \<open>handleRejectItem\<close>)
  the queue holds one record, whose only valid index is 0, but the cursor is 1: no record
  is under the cursor.
\<close>

theorem handleAcceptAsIs_cursor_past_end:
  "flaggedIndex (handleAcceptAsIs
      \<lparr>evalResults = [sample_response ''a'' Flagged, sample_response ''b'' Flagged], flaggedIndex = 0\<rparr>) = 1 \<and>
   length (flaggedItems (evalResults (handleAcceptAsIs
      \<lparr>evalResults = [sample_response ''a'' Flagged, sample_response ''b'' Flagged], flaggedIndex = 0\<rparr>))) = 1 \<and>
   currentFlagged (handleAcceptAsIs
      \<lparr>evalResults = [sample_response ''a'' Flagged, sample_response ''b'' Flagged], flaggedIndex = 0\<rparr>) = None \<and>
   flaggedIndex (handleRejectItem
      \<lparr>evalResults = [sample_response ''a'' Flagged, sample_response ''b'' Flagged], flaggedIndex = 0\<rparr>) = 1 \<and>
   length (flaggedItems (evalResults (handleRejectItem
      \<lparr>evalResults = [sample_response ''a'' Flagged, sample_response ''b'' Flagged], flaggedIndex = 0\<rparr>))) = 1"
  by (simp add: handleAcceptAsIs_def handleRejectItem_def set_status_and_move_def currentFlagged_def
      flaggedItems_def nth_opt_def sample_response_def)

section \<open>Properties of the RAFT synthesis\<close>

lemma fallback_loop_not_oracle: "d \<in> set (fallback_loop fmt i xs) \<Longrightarrow> \<not> is_oracle d"
  by (induction xs arbitrary: i) auto

lemma createFallbackDistractors_not_oracle:
  "d \<in> set (createFallbackDistractors sh allItems cur n fmt) \<Longrightarrow> \<not> is_oracle d"
  unfolding createFallbackDistractors_def Let_def by (rule fallback_loop_not_oracle)

lemma weaviate_distractors_not_oracle:
  "weaviate_distractors_for cfg env q a = Some ds \<Longrightarrow> d \<in> set ds \<Longrightarrow> \<not> is_oracle d"
  by (auto simp: weaviate_distractors_for_def Let_def split: if_splits)

lemma raft_distractors_not_oracle:
  "d \<in> set (raft_distractors cfg env acceptedItems i it) \<Longrightarrow> \<not> is_oracle d"
  by (auto simp: raft_distractors_def Let_def split: if_splits option.splits
      dest: weaviate_distractors_not_oracle createFallbackDistractors_not_oracle)




lemma assistant_of_prepare_item:
  "\<exists>s. prepared (prepare_item cfg env acceptedItems i it pr) = prepared pr @ [s] \<and>
       oracle_included s = (draw env < oracleProbability cfg) \<and>
       sample_messages s ! 1 =
         \<lparr>role = ''assistant'', content = Some (snd (raft_documents cfg env acceptedItems i it))\<rparr>"
  unfolding prepare_item_def Let_def case_prod_beta
  by (simp del: append.simps append_Cons append_Nil)

lemma handlePrepareRaft_loop_length:
  "length (prepared (handlePrepareRaft_loop cfg env acceptedItems i its pr))
     = length (prepared pr) + length its"
proof (induction its arbitrary: i pr)
  case Nil
  then show ?case by simp
next
  case (Cons it rest)
  from assistant_of_prepare_item[of cfg "env i" acceptedItems i it pr]
  have "length (prepared (prepare_item cfg (env i) acceptedItems i it pr)) = length (prepared pr) + 1"
    by auto
  with Cons.IH[of "Suc i" "prepare_item cfg (env i) acceptedItems i it pr"] show ?case
    by simp
qed








text \<open>
  Claim C7. When the inclusion draw fails, the documents of the sample are the distractors
  alone, none of which is an oracle, and the answer is the fixed refusal text: that the
  documents were reviewed for the question, that none of them contains sufficient
  information to answer it accurately, and that additional sources would be needed. One
  sample is appended to the prepared samples, with \<open>_oracle_included\<close> unset, whatever
  the distractors are, so also when there are none and the sample has no document.
\<close>

theorem no_oracle_when_excluded:
  assumes "\<not> draw env < oracleProbability cfg"
  shows "(\<forall>d \<in> set (fst (raft_documents cfg env acceptedItems i it)). \<not> is_oracle d) \<and>
         fst (raft_documents cfg env acceptedItems i it) = raft_distractors cfg env acceptedItems i it \<and>
         snd (raft_documents cfg env acceptedItems i it)
           = ''I'' @ [CHR 0x27] @ ''ve reviewed the provided documents looking for information about: ''
               @ getQuestion it @ [CHR 0x0A, CHR 0x0A]
               @ ''However, none of the documents contain sufficient information to answer this question accurately. I would need additional sources to provide a reliable answer.'' \<and>
         (\<exists>s. prepared (prepare_item cfg env acceptedItems i it pr) = prepared pr @ [s] \<and>
              \<not> oracle_included s \<and>
              sample_messages s ! 1 =
                \<lparr>role = ''assistant'',
                 content = Some (''I'' @ [CHR 0x27] @ ''ve reviewed the provided documents looking for information about: ''
               @ getQuestion it @ [CHR 0x0A, CHR 0x0A]
               @ ''However, none of the documents contain sufficient information to answer this question accurately. I would need additional sources to provide a reliable answer.'')\<rparr>)"
proof -
  have rd: "raft_documents cfg env acceptedItems i it
              = (raft_distractors cfg env acceptedItems i it, refusal_answer (getQuestion it))"
    using assms by (simp add: raft_documents_def Let_def)
  from assistant_of_prepare_item[of cfg env acceptedItems i it pr] assms rd
  have "\<exists>s. prepared (prepare_item cfg env acceptedItems i it pr) = prepared pr @ [s] \<and>
              \<not> oracle_included s \<and>
              sample_messages s ! 1 =
                \<lparr>role = ''assistant'', content = Some (refusal_answer (getQuestion it))\<rparr>"
    by auto
  then have "(\<forall>d \<in> set (fst (raft_documents cfg env acceptedItems i it)). \<not> is_oracle d) \<and>
         fst (raft_documents cfg env acceptedItems i it) = raft_distractors cfg env acceptedItems i it \<and>
         snd (raft_documents cfg env acceptedItems i it) = refusal_answer (getQuestion it) \<and>
         (\<exists>s. prepared (prepare_item cfg env acceptedItems i it pr) = prepared pr @ [s] \<and>
              \<not> oracle_included s \<and>
              sample_messages s ! 1 =
                \<lparr>role = ''assistant'', content = Some (refusal_answer (getQuestion it))\<rparr>)"
    unfolding rd using raft_distractors_not_oracle[of _ cfg env acceptedItems i it] by auto
  then show ?thesis unfolding refusal_answer_def .
qed

theorem no_oracle_when_excluded_witness:
  "fst (raft_documents \<lparr>numDistractors = 3, oracleProbability = 8 / 10\<rparr>
          \<lparr>weaviate_ready = False,
            searchWeaviate = (\<lambda>q n a. \<lparr>success = False, documents = [], search_error = None\<rparr>),
            draw = 9 / 10, shuffle_docs = rev, shuffle_items = rev\<rparr>
          [empty_item\<lparr>messages := Some [Some \<lparr>role = ''user'', content = Some ''q1''\<rparr>, Some \<lparr>role = ''assistant'', content = Some ''a1''\<rparr>]\<rparr>, empty_item\<lparr>messages := Some [Some \<lparr>role = ''user'', content = Some ''q2''\<rparr>, Some \<lparr>role = ''assistant'', content = Some ''a2''\<rparr>]\<rparr>] 0 (empty_item\<lparr>messages := Some [Some \<lparr>role = ''user'', content = Some ''q1''\<rparr>, Some \<lparr>role = ''assistant'', content = Some ''a1''\<rparr>]\<rparr>))
     = [\<lparr>doc_id = ''distractor_0'', doc_content = ''q2'' @ [CHR 0x0A, CHR 0x0A] @ ''a2'',
         is_oracle = False\<rparr>] \<and>
   snd (raft_documents \<lparr>numDistractors = 3, oracleProbability = 8 / 10\<rparr>
          \<lparr>weaviate_ready = False,
            searchWeaviate = (\<lambda>q n a. \<lparr>success = False, documents = [], search_error = None\<rparr>),
            draw = 9 / 10, shuffle_docs = rev, shuffle_items = rev\<rparr>
          [empty_item\<lparr>messages := Some [Some \<lparr>role = ''user'', content = Some ''q1''\<rparr>, Some \<lparr>role = ''assistant'', content = Some ''a1''\<rparr>]\<rparr>, empty_item\<lparr>messages := Some [Some \<lparr>role = ''user'', content = Some ''q2''\<rparr>, Some \<lparr>role = ''assistant'', content = Some ''a2''\<rparr>]\<rparr>] 0 (empty_item\<lparr>messages := Some [Some \<lparr>role = ''user'', content = Some ''q1''\<rparr>, Some \<lparr>role = ''assistant'', content = Some ''a1''\<rparr>]\<rparr>))
     = ''I'' @ [CHR 0x27] @ ''ve reviewed the provided documents looking for information about: ''
               @ ''q1'' @ [CHR 0x0A, CHR 0x0A]
               @ ''However, none of the documents contain sufficient information to answer this question accurately. I would need additional sources to provide a reliable answer.'' \<and>
   fst (raft_documents \<lparr>numDistractors = 3, oracleProbability = 8 / 10\<rparr>
          \<lparr>weaviate_ready = False,
            searchWeaviate = (\<lambda>q n a. \<lparr>success = False, documents = [], search_error = None\<rparr>),
            draw = 9 / 10, shuffle_docs = rev, shuffle_items = rev\<rparr>
          [empty_item\<lparr>messages := Some [Some \<lparr>role = ''user'', content = Some ''q1''\<rparr>, Some \<lparr>role = ''assistant'', content = Some ''a1''\<rparr>]\<rparr>] 0 (empty_item\<lparr>messages := Some [Some \<lparr>role = ''user'', content = Some ''q1''\<rparr>, Some \<lparr>role = ''assistant'', content = Some ''a1''\<rparr>]\<rparr>)) = [] \<and>
   snd (raft_documents \<lparr>numDistractors = 3, oracleProbability = 8 / 10\<rparr>
          \<lparr>weaviate_ready = False,
            searchWeaviate = (\<lambda>q n a. \<lparr>success = False, documents = [], search_error = None\<rparr>),
            draw = 9 / 10, shuffle_docs = rev, shuffle_items = rev\<rparr>
          [empty_item\<lparr>messages := Some [Some \<lparr>role = ''user'', content = Some ''q1''\<rparr>, Some \<lparr>role = ''assistant'', content = Some ''a1''\<rparr>]\<rparr>] 0 (empty_item\<lparr>messages := Some [Some \<lparr>role = ''user'', content = Some ''q1''\<rparr>, Some \<lparr>role = ''assistant'', content = Some ''a1''\<rparr>]\<rparr>))
     = ''I'' @ [CHR 0x27] @ ''ve reviewed the provided documents looking for information about: ''
               @ ''q1'' @ [CHR 0x0A, CHR 0x0A]
               @ ''However, none of the documents contain sufficient information to answer this question accurately. I would need additional sources to provide a reliable answer.''"
proof -
  let ?cfg = "\<lparr>numDistractors = 3, oracleProbability = 8 / 10\<rparr>"
  let ?env = "\<lparr>weaviate_ready = False,
            searchWeaviate = (\<lambda>(q::string) (n::int) (a::string). \<lparr>success = False, documents = [], search_error = None\<rparr>),
            draw = 9 / 10, shuffle_docs = rev, shuffle_items = rev\<rparr>"
  let ?it1 = "empty_item\<lparr>messages := Some [Some \<lparr>role = ''user'', content = Some ''q1''\<rparr>, Some \<lparr>role = ''assistant'', content = Some ''a1''\<rparr>]\<rparr>"
  let ?it2 = "empty_item\<lparr>messages := Some [Some \<lparr>role = ''user'', content = Some ''q2''\<rparr>, Some \<lparr>role = ''assistant'', content = Some ''a2''\<rparr>]\<rparr>"
  let ?pr = "\<lparr>prepared = [], weaviateSuccessCount = 0, fallbackCount = 0\<rparr>"
  have d2: "raft_distractors ?cfg ?env [?it1, ?it2] 0 ?it1
              = [\<lparr>doc_id = ''distractor_0'', doc_content = ''q2'' @ [CHR 0x0A, CHR 0x0A] @ ''a2'',
                  is_oracle = False\<rparr>]"
    by code_simp
  have d1: "raft_distractors ?cfg ?env [?it1] 0 ?it1 = []"
    by code_simp
  have q: "getQuestion ?it1 = ''q1''"
    by code_simp
  have h: "\<not> draw ?env < oracleProbability ?cfg" by simp
  from no_oracle_when_excluded[OF h, of "[?it1, ?it2]" 0 ?it1 ?pr]
  have two: "fst (raft_documents ?cfg ?env [?it1, ?it2] 0 ?it1)
               = [\<lparr>doc_id = ''distractor_0'', doc_content = ''q2'' @ [CHR 0x0A, CHR 0x0A] @ ''a2'',
                   is_oracle = False\<rparr>]"
    and two_answer: "snd (raft_documents ?cfg ?env [?it1, ?it2] 0 ?it1)
               = ''I'' @ [CHR 0x27] @ ''ve reviewed the provided documents looking for information about: ''
               @ ''q1'' @ [CHR 0x0A, CHR 0x0A]
               @ ''However, none of the documents contain sufficient information to answer this question accurately. I would need additional sources to provide a reliable answer.''"
    unfolding d2 q by blast+
  from no_oracle_when_excluded[OF h, of "[?it1]" 0 ?it1 ?pr]
  have one: "fst (raft_documents ?cfg ?env [?it1] 0 ?it1) = []"
    and one_answer: "snd (raft_documents ?cfg ?env [?it1] 0 ?it1)
               = ''I'' @ [CHR 0x27] @ ''ve reviewed the provided documents looking for information about: ''
               @ ''q1'' @ [CHR 0x0A, CHR 0x0A]
               @ ''However, none of the documents contain sufficient information to answer this question accurately. I would need additional sources to provide a reliable answer.''"
    unfolding d1 q by blast+
  from two two_answer one one_answer show ?thesis by blast
qed

section \<open>Properties of the snapshot\<close>

text \<open>
  Claim C6, as the code has it. When the store holds at least one record and no edit is
  in progress, saving produces a document and leaves the store as it is; loading that
  document, whatever the store holds at that moment, puts back an identical record set
  and the same cursor position, and leaves the edit mode.
\<close>

theorem snapshot_roundtrip:
  assumes "trainingData st \<noteq> []" and "\<not> editMode st"
  shows "\<exists>blob. handleSave now st = (Some blob, st) \<and>
           (\<forall>fname cur.
              trainingData (handleResumeFileLoad (Some (fname, Inr blob)) cur) = trainingData st \<and>
              currentIndex (handleResumeFileLoad (Some (fname, Inr blob)) cur) = currentIndex st \<and>
              \<not> editMode (handleResumeFileLoad (Some (fname, Inr blob)) cur))"
  using assms by (simp add: handleSave_def handleResumeFileLoad_def)

theorem snapshot_roundtrip_witness:
  "handleSave ''2026-01-01''
          \<lparr>trainingData = [empty_item\<lparr>question := Some ''q1'', answer := Some ''a1''\<rparr>,
                            empty_item\<lparr>question := Some ''q2'', answer := Some ''a2''\<rparr>],
            fileInfo = None, currentIndex = 1, editMode = False, editedAnswer = []\<rparr>
     = (Some \<lparr>sd_data = Some [empty_item\<lparr>question := Some ''q1'', answer := Some ''a1''\<rparr>,
                               empty_item\<lparr>question := Some ''q2'', answer := Some ''a2''\<rparr>],
              sd_fileInfo = None, sd_currentIndex = Some 1, sd_savedAt = Some ''2026-01-01''\<rparr>,
        \<lparr>trainingData = [empty_item\<lparr>question := Some ''q1'', answer := Some ''a1''\<rparr>,
                          empty_item\<lparr>question := Some ''q2'', answer := Some ''a2''\<rparr>],
          fileInfo = None, currentIndex = 1, editMode = False, editedAnswer = []\<rparr>) \<and>
   trainingData (handleResumeFileLoad
      (Some (''progress.json'',
             Inr \<lparr>sd_data = Some [empty_item\<lparr>question := Some ''q1'', answer := Some ''a1''\<rparr>,
                                   empty_item\<lparr>question := Some ''q2'', answer := Some ''a2''\<rparr>],
                  sd_fileInfo = None, sd_currentIndex = Some 1, sd_savedAt = Some ''2026-01-01''\<rparr>))
      \<lparr>trainingData = [], fileInfo = None, currentIndex = 0, editMode = True, editedAnswer = ''x''\<rparr>)
     = [empty_item\<lparr>question := Some ''q1'', answer := Some ''a1''\<rparr>,
        empty_item\<lparr>question := Some ''q2'', answer := Some ''a2''\<rparr>] \<and>
   currentIndex (handleResumeFileLoad
      (Some (''progress.json'',
             Inr \<lparr>sd_data = Some [empty_item\<lparr>question := Some ''q1'', answer := Some ''a1''\<rparr>,
                                   empty_item\<lparr>question := Some ''q2'', answer := Some ''a2''\<rparr>],
                  sd_fileInfo = None, sd_currentIndex = Some 1, sd_savedAt = Some ''2026-01-01''\<rparr>))
      \<lparr>trainingData = [], fileInfo = None, currentIndex = 0, editMode = True, editedAnswer = ''x''\<rparr>)
     = 1"
proof -
  let ?data = "[empty_item\<lparr>question := Some ''q1'', answer := Some ''a1''\<rparr>,
                empty_item\<lparr>question := Some ''q2'', answer := Some ''a2''\<rparr>]"
  let ?st = "\<lparr>trainingData = ?data, fileInfo = None, currentIndex = 1, editMode = False,
              editedAnswer = []\<rparr>"
  let ?blob = "\<lparr>sd_data = Some ?data, sd_fileInfo = None, sd_currentIndex = Some 1,
                sd_savedAt = Some ''2026-01-01''\<rparr>"
  let ?cur = "\<lparr>trainingData = [], fileInfo = None, currentIndex = 0, editMode = True,
               editedAnswer = ''x''\<rparr>"
  have h1: "trainingData ?st \<noteq> []" by simp
  have h2: "\<not> editMode ?st" by simp
  have s: "handleSave ''2026-01-01'' ?st = (Some ?blob, ?st)"
    by (simp add: handleSave_def)
  from snapshot_roundtrip[OF h1 h2, of "''2026-01-01''"] s
  have "\<forall>fname cur.
          trainingData (handleResumeFileLoad (Some (fname, Inr ?blob)) cur) = trainingData ?st \<and>
          currentIndex (handleResumeFileLoad (Some (fname, Inr ?blob)) cur) = currentIndex ?st"
    by auto
  then have "trainingData (handleResumeFileLoad (Some (''progress.json'', Inr ?blob)) ?cur) = trainingData ?st \<and>
          currentIndex (handleResumeFileLoad (Some (''progress.json'', Inr ?blob)) ?cur) = currentIndex ?st"
    by blast
  with s show ?thesis by simp
qed

text \<open>
  Claim C6 as stated fails for the empty record set: saving produces no document, so
  there is nothing to restore.
\<close>

theorem handleSave_empty_counterexample:
  "fst (handleSave ''2026-01-01''
          \<lparr>trainingData = [], fileInfo = None, currentIndex = 0, editMode = False, editedAnswer = []\<rparr>)
     = None"
  by (simp add: handleSave_def)

end
